theory Spec2Isabelle
  imports Complex_Main "HOL-Library.Char_ord"
begin

section \<open>The training entry point \<open>train1.py\<close>\<close>

text \<open>
  The script parses five command-line options, loads three YAML files, builds datasets,
  a sampler, two data loaders, the task, the checkpoint callback and the trainer, decides
  how training is initialised, calls \<open>trainer.fit\<close> and, in finetuning mode, saves the
  final weights. Everything the script computes by itself is modelled: the option
  defaults, path arithmetic, the dictionary merge, the arithmetic on configuration
  values, the selection of the latest checkpoint, and every exception its own
  expressions raise. Calls into other modules and libraries are recorded as events, with
  the arguments they receive, in the order in which they are made.

  Strings are byte strings: characters outside ASCII are outside this model.
\<close>

subsection \<open>Python exceptions\<close>

datatype error =
    OSError string
  | YAMLError
  | AttributeError
  | TypeError
  | ValueError
  | KeyError string
  | IndexError

subsection \<open>Strings: \<open>str.split\<close>, \<open>str.strip\<close> and \<open>int\<close>\<close>

definition startswith :: "string \<Rightarrow> string \<Rightarrow> bool" where
  "startswith s pre = (take (length pre) s = pre)"

definition endswith :: "string \<Rightarrow> string \<Rightarrow> bool" where
  "endswith s suf = (length suf \<le> length s \<and> drop (length s - length suf) s = suf)"

text \<open>
  \<open>s.split(sep)\<close> for a non-empty separator: the pieces between the occurrences of
  \<open>sep\<close>, found from left to right without overlap. \<open>cur\<close> is the piece being read.
\<close>

fun split_from :: "string \<Rightarrow> string \<Rightarrow> string \<Rightarrow> string list" where
  "split_from sep cur [] = [cur]"
| "split_from sep cur (c # cs) =
     (if startswith (c # cs) sep
      then cur # split_from sep [] (drop (length sep - 1) cs)
      else split_from sep (cur @ [c]) cs)"

definition py_split :: "string \<Rightarrow> string \<Rightarrow> string list" where
  "py_split s sep = split_from sep [] s"

text \<open>The whitespace that \<open>int\<close> skips at both ends (the ASCII part of it).\<close>

definition is_space :: "char \<Rightarrow> bool" where
  "is_space c = (let n = (of_char c :: nat) in (9 \<le> n \<and> n \<le> 13) \<or> (28 \<le> n \<and> n \<le> 32))"

definition strip :: "string \<Rightarrow> string" where
  "strip s = rev (dropWhile is_space (rev (dropWhile is_space s)))"

definition digit_val :: "char \<Rightarrow> nat option" where
  "digit_val c = (let n = (of_char c :: nat) in if 48 \<le> n \<and> n \<le> 57 then Some (n - 48) else None)"

text \<open>
  The digits of an integer literal, after its first digit: more digits, each optionally
  preceded by one underscore.
\<close>

fun parse_digits :: "nat \<Rightarrow> string \<Rightarrow> nat option" where
  "parse_digits acc [] = Some acc"
| "parse_digits acc (c # cs) =
     (if c = CHR ''_''
      then (case cs of
              [] \<Rightarrow> None
            | d # ds \<Rightarrow> (case digit_val d of
                           None \<Rightarrow> None
                         | Some v \<Rightarrow> parse_digits (10 * acc + v) ds))
      else (case digit_val c of
              None \<Rightarrow> None
            | Some v \<Rightarrow> parse_digits (10 * acc + v) cs))"

definition parse_unsigned :: "string \<Rightarrow> nat option" where
  "parse_unsigned s =
     (case s of
        [] \<Rightarrow> None
      | d # ds \<Rightarrow> (case digit_val d of None \<Rightarrow> None | Some v \<Rightarrow> parse_digits v ds))"

text \<open>
  \<open>int(s)\<close> on a string, base ten: \<open>None\<close> stands for the \<open>ValueError\<close> of a string
  that is not an integer literal.
\<close>

definition py_int :: "string \<Rightarrow> int option" where
  "py_int s =
     (case strip s of
        [] \<Rightarrow> None
      | c # cs \<Rightarrow>
          if c = CHR ''-'' then map_option (\<lambda>n. - int n) (parse_unsigned cs)
          else if c = CHR ''+'' then map_option int (parse_unsigned cs)
          else map_option int (parse_unsigned (c # cs)))"

subsection \<open>Paths: \<open>pathlib.Path\<close> on a POSIX system\<close>

text \<open>
  A path is its root (\<open>''''\<close> for a relative path, \<open>''/''\<close> or \<open>''//''\<close>) and its
  components. Parsing a string drops empty components and \<open>.\<close> components.
\<close>

record path =
  root :: string
  parts :: "string list"

definition root_of :: "string \<Rightarrow> string" where
  "root_of s =
     (if startswith s ''//'' \<and> \<not> startswith s ''///'' then ''//''
      else if startswith s ''/'' then ''/''
      else '''')"

definition Path :: "string \<Rightarrow> path" where
  "Path s = \<lparr>root = root_of s,
             parts = filter (\<lambda>c. c \<noteq> [] \<and> c \<noteq> ''.'') (py_split s ''/'')\<rparr>"

text \<open>\<open>p / s\<close>: an absolute right operand replaces the left one.\<close>

definition truediv :: "path \<Rightarrow> string \<Rightarrow> path" where
  "truediv p s =
     (let q = Path s
      in if root q \<noteq> [] then q else \<lparr>root = root p, parts = parts p @ parts q\<rparr>)"

fun join_with :: "string \<Rightarrow> string list \<Rightarrow> string" where
  "join_with sep [] = []"
| "join_with sep [x] = x"
| "join_with sep (x # y # ys) = x @ sep @ join_with sep (y # ys)"

definition str_path :: "path \<Rightarrow> string" where
  "str_path p =
     (if root p = [] \<and> parts p = [] then ''.''
      else root p @ join_with ''/'' (parts p))"

definition name :: "path \<Rightarrow> string" where
  "name p = (if parts p = [] then [] else last (parts p))"

text \<open>
  \<open>p.stem\<close>: the final component without its last suffix. A dot in first or last
  position starts no suffix.
\<close>

definition rfind_dot :: "string \<Rightarrow> nat option" where
  "rfind_dot s =
     (let k = length (takeWhile (\<lambda>c. c \<noteq> CHR ''.'') (rev s))
      in if k = length s then None else Some (length s - 1 - k))"

definition stem :: "path \<Rightarrow> string" where
  "stem p =
     (case rfind_dot (name p) of
        None \<Rightarrow> name p
      | Some i \<Rightarrow> if 0 < i \<and> i < length (name p) - 1 then take i (name p) else name p)"

subsection \<open>YAML values and the Python operations the script applies to them\<close>

text \<open>
  What \<open>yaml.safe_load\<close> returns. A mapping is represented by its entries with string
  keys, in insertion order; the script looks up string keys only. A well-formed mapping
  has no repeated key, and a lookup finds the first entry of its key. A float is
  represented by the rational number it denotes: arithmetic on floats is exact here,
  rounding, infinities and NaN are not represented.
\<close>

datatype yaml =
    YNull
  | YBool bool
  | YInt int
  | YFloat rat
  | YStr string
  | YSeq "yaml list"
  | YMap "(string \<times> yaml) list"

type_synonym dict = "(string \<times> yaml) list"

text \<open>\<open>d[k]\<close> on a dictionary.\<close>

definition getitem :: "dict \<Rightarrow> string \<Rightarrow> error + yaml" where
  "getitem d k = (case map_of d k of None \<Rightarrow> Inl (KeyError k) | Some v \<Rightarrow> Inr v)"

text \<open>\<open>v[k]\<close> with a string \<open>k\<close> on any value: only a mapping accepts a string subscript.\<close>

definition subscript :: "yaml \<Rightarrow> string \<Rightarrow> error + yaml" where
  "subscript v k = (case v of YMap d \<Rightarrow> getitem d k | _ \<Rightarrow> Inl TypeError)"

text \<open>The number a value denotes; \<open>bool\<close> is a subtype of \<open>int\<close>.\<close>

definition num_val :: "yaml \<Rightarrow> rat option" where
  "num_val v =
     (case v of
        YBool b \<Rightarrow> Some (if b then 1 else 0)
      | YInt n \<Rightarrow> Some (of_int n)
      | YFloat r \<Rightarrow> Some r
      | _ \<Rightarrow> None)"

text \<open>\<open>v > 0\<close>.\<close>

definition gt_zero :: "yaml \<Rightarrow> error + bool" where
  "gt_zero v = (case num_val v of None \<Rightarrow> Inl TypeError | Some r \<Rightarrow> Inr (0 < r))"

text \<open>\<open>v / d\<close> for the divisors 1 and 2 of the script: true division, a float.\<close>

definition true_div :: "yaml \<Rightarrow> int \<Rightarrow> error + yaml" where
  "true_div v d = (case num_val v of None \<Rightarrow> Inl TypeError | Some r \<Rightarrow> Inr (YFloat (r / of_int d)))"

text \<open>\<open>d[k] = v\<close>: an existing key keeps its position, a new key goes last.\<close>

fun setitem :: "string \<Rightarrow> yaml \<Rightarrow> dict \<Rightarrow> dict" where
  "setitem k v [] = [(k, v)]"
| "setitem k v ((k', v') # d) = (if k' = k then (k, v) # d else (k', v') # setitem k v d)"

text \<open>\<open>d.items()\<close>: one entry for each key.\<close>

fun items :: "dict \<Rightarrow> dict" where
  "items [] = []"
| "items ((k, v) # d) = (k, v) # items (filter (\<lambda>e. fst e \<noteq> k) d)"

text \<open>
  One element of the iterable given to \<open>dict.update\<close> has to be a sequence of length
  two, its key and its value. \<open>None\<close> is an entry whose key is a scalar that is not a
  string: it changes no string key.
\<close>

definition update_item :: "yaml \<Rightarrow> error + (string \<times> yaml) option" where
  "update_item e =
     (case e of
        YStr s \<Rightarrow> (case s of [a, b] \<Rightarrow> Inr (Some ([a], YStr [b])) | _ \<Rightarrow> Inl ValueError)
      | YSeq xs \<Rightarrow>
          (case xs of
             [k, v] \<Rightarrow> (case k of
                          YStr s \<Rightarrow> Inr (Some (s, v))
                        | YSeq _ \<Rightarrow> Inl TypeError
                        | YMap _ \<Rightarrow> Inl TypeError
                        | _ \<Rightarrow> Inr None)
           | _ \<Rightarrow> Inl ValueError)
      | YMap m \<Rightarrow>
          (case map fst (items m) of
             [k1, k2] \<Rightarrow> Inr (Some (k1, YStr k2))
           | _ \<Rightarrow> Inl ValueError)
      | _ \<Rightarrow> Inl TypeError)"

fun update_from_seq :: "dict \<Rightarrow> yaml list \<Rightarrow> error + dict" where
  "update_from_seq d [] = Inr d"
| "update_from_seq d (e # es) =
     (case update_item e of
        Inl err \<Rightarrow> Inl err
      | Inr None \<Rightarrow> update_from_seq d es
      | Inr (Some (k, v)) \<Rightarrow> update_from_seq (setitem k v d) es)"

text \<open>
  \<open>d.update(other)\<close>: a mapping gives its items; any other iterable gives key and value
  pairs; a value that is not iterable is a \<open>TypeError\<close>.
\<close>

definition dict_update :: "dict \<Rightarrow> yaml \<Rightarrow> error + dict" where
  "dict_update d other =
     (case other of
        YMap g \<Rightarrow> Inr (fold (\<lambda>(k, v). setitem k v) (items g) d)
      | YSeq es \<Rightarrow> update_from_seq d es
      | YStr s \<Rightarrow> update_from_seq d (map (\<lambda>c. YStr [c]) s)
      | _ \<Rightarrow> Inl TypeError)"

text \<open>\<open>config.update(config_global)\<close>: only a dictionary has the method.\<close>

definition update :: "yaml \<Rightarrow> yaml \<Rightarrow> error + dict" where
  "update config other = (case config of YMap d \<Rightarrow> dict_update d other | _ \<Rightarrow> Inl AttributeError)"

text \<open>\<open>p / v\<close> with a configuration value: only a string is accepted.\<close>

definition truediv_value :: "path \<Rightarrow> yaml \<Rightarrow> error + path" where
  "truediv_value p v = (case v of YStr s \<Rightarrow> Inr (truediv p s) | _ \<Rightarrow> Inl TypeError)"

subsection \<open>The command line\<close>

text \<open>
  The five \<open>click\<close> options as declared: names, whether the option is a flag, and its
  default. A command line is what it gives for each option: a value or nothing for the
  three string options, present or absent for the two flags.
\<close>

record 'a option_decl =
  names :: "string list"
  is_flag :: bool
  default :: 'a

definition config_path_option :: "string option_decl" where
  "config_path_option =
     \<lparr>names = [''--config_path'', ''-c''], is_flag = False, default = ''configs/train_config.yaml''\<rparr>"

definition data_folder_option :: "string option_decl" where
  "data_folder_option = \<lparr>names = [''--data_folder'', ''-d''], is_flag = False, default = ''data''\<rparr>"

definition pretrained_model_path_option :: "string option option_decl" where
  "pretrained_model_path_option =
     \<lparr>names = [''--pretrained_model_path'', ''-p''], is_flag = False, default = None\<rparr>"

definition resume_option :: "bool option_decl" where
  "resume_option = \<lparr>names = [''--resume'', ''-r''], is_flag = True, default = False\<rparr>"

definition ft_option :: "bool option_decl" where
  "ft_option = \<lparr>names = [''--ft'', ''-ft''], is_flag = True, default = False\<rparr>"

record cmdline =
  given_config_path :: "string option"
  given_data_folder :: "string option"
  given_pretrained_model_path :: "string option"
  given_resume :: bool
  given_ft :: bool

text \<open>The parameters of \<open>main\<close>.\<close>

record args =
  config_path :: string
  data_folder :: string
  pretrained_model_path :: "string option"
  resume :: bool
  ft :: bool

definition flag_value :: "bool option_decl \<Rightarrow> bool \<Rightarrow> bool" where
  "flag_value decl present = (if present then \<not> default decl else default decl)"

definition option_value :: "'a option_decl \<Rightarrow> 'a option \<Rightarrow> 'a" where
  "option_value decl given = (case given of None \<Rightarrow> default decl | Some v \<Rightarrow> v)"

definition parse_cmdline :: "cmdline \<Rightarrow> args" where
  "parse_cmdline cl =
     \<lparr>config_path = option_value config_path_option (given_config_path cl),
      data_folder = option_value data_folder_option (given_data_folder cl),
      pretrained_model_path =
        option_value pretrained_model_path_option (map_option Some (given_pretrained_model_path cl)),
      resume = flag_value resume_option (given_resume cl),
      ft = flag_value ft_option (given_ft cl)\<rparr>"

subsection \<open>The environment and the calls the script makes\<close>

text \<open>
  The file system as the script sees it: what opening and loading a YAML file gives, and,
  for a directory, the entries below it (each as its components relative to the
  directory) in the order a recursive scan yields them. \<open>safe_dump\<close> is the text that
  \<open>yaml.safe_dump\<close> produces.
\<close>

datatype file_state = Unreadable | Malformed | Document yaml

record env =
  read_file :: "string \<Rightarrow> file_state"
  walk :: "string \<Rightarrow> string list list"
  safe_dump :: "yaml \<Rightarrow> string"

record sampler_args =
  oversampling_weights :: yaml
  max_length :: yaml
  binning_length :: yaml
  drop_last :: yaml

record train_loader_args =
  tl_num_workers :: yaml
  tl_persistent_workers :: bool
  tl_pin_memory :: bool
  tl_prefetch_factor :: "int option"

record valid_loader_args =
  vl_batch_size :: int
  vl_shuffle :: bool
  vl_num_workers :: yaml
  vl_persistent_workers :: bool

record task_args =
  vocab_text :: string
  model_config :: yaml
  melspec_config :: yaml
  optimizer_config :: yaml
  loss_config :: yaml
  augmentation_enabled :: bool

record checkpoint_args =
  dirpath :: string
  monitor :: string
  mode :: string
  save_top_k :: yaml
  filename :: string
  every_n_train_steps :: yaml
  verbose :: bool

datatype callback = ModelCheckpoint checkpoint_args | ProgressBar int int bool

record trainer_args =
  accelerator :: yaml
  devices :: yaml
  precision :: yaml
  gradient_clip_val :: yaml
  gradient_clip_algorithm :: yaml
  default_root_dir :: string
  val_check_interval :: yaml
  check_val_every_n_epoch :: "int option"
  max_epochs :: int
  max_steps :: yaml
  callbacks :: "callback option list"

datatype event =
    SetEnviron string string
  | OpenFile string
  | SetFloat32MatmulPrecision yaml
  | SeedEverything yaml bool
  | NewMixedDataset yaml path string
  | GetLabelTypes
  | GetWavLengths
  | NewBatchSampler sampler_args
  | NewTrainDataLoader train_loader_args
  | NewValidDataLoader valid_loader_args
  | NewTask task_args
  | Mkdir path bool bool
  | NewModelCheckpoint checkpoint_args
  | NewProgressBar int int bool
  | NewTrainer trainer_args
  | LoadFromCheckpoint string
  | LoadPretrained
  | Rglob path string
  | Fit "string option"
  | SaveCheckpoint string bool

text \<open>
  A computation yields the events it has caused, then an exception or a value. After an
  exception nothing more happens.
\<close>

type_synonym 'a prog = "event list \<times> (error + 'a)"

definition ret :: "'a \<Rightarrow> 'a prog" where
  "ret x = ([], Inr x)"

definition emit :: "event \<Rightarrow> unit prog" where
  "emit ev = ([ev], Inr ())"

definition lift :: "error + 'a \<Rightarrow> 'a prog" where
  "lift r = ([], r)"

definition bind :: "'a prog \<Rightarrow> ('a \<Rightarrow> 'b prog) \<Rightarrow> 'b prog" where
  "bind m f =
     (case m of
        (t, Inl e) \<Rightarrow> (t, Inl e)
      | (t, Inr x) \<Rightarrow> (case f x of (t', r) \<Rightarrow> (t @ t', r)))"

text \<open>\<open>config[k]\<close> as a step of the script.\<close>

definition cfg :: "dict \<Rightarrow> string \<Rightarrow> yaml prog" where
  "cfg config k = lift (getitem config k)"

subsection \<open>The script, \<open>main\<close>\<close>

text \<open>\<open>open(p)\<close> followed by \<open>yaml.safe_load\<close>.\<close>

definition load_yaml :: "env \<Rightarrow> string \<Rightarrow> yaml prog" where
  "load_yaml env p =
     bind (emit (OpenFile p)) (\<lambda>_.
       case read_file env p of
         Unreadable \<Rightarrow> lift (Inl (OSError p))
       | Malformed \<Rightarrow> lift (Inl YAMLError)
       | Document v \<Rightarrow> ret v)"

text \<open>Lines 59 to 73: the three YAML files and the merged configuration.\<close>

definition load_config :: "env \<Rightarrow> args \<Rightarrow> (dict \<times> string) prog" where
  "load_config env a =
     (let folder = Path (data_folder a) in
      bind (emit (SetEnviron ''TORCH_CUDNN_V8_API_ENABLED'' ''1'')) (\<lambda>_.
      bind (load_yaml env (config_path a)) (\<lambda>config.
      bind (load_yaml env (str_path (truediv (truediv folder ''binary'') ''vocab.yaml''))) (\<lambda>vocab.
      bind (load_yaml env (str_path (truediv (truediv folder ''binary'') ''global_config.yaml'')))
        (\<lambda>config_global.
      bind (lift (update config config_global)) (\<lambda>merged.
      ret (merged, safe_dump env vocab)))))))"

text \<open>Lines 75 and 76: the matrix multiplication precision and the random seed.\<close>

definition seed_all :: "dict \<Rightarrow> unit prog" where
  "seed_all config =
     bind (cfg config ''float32_matmul_precision'') (\<lambda>matmul.
     bind (emit (SetFloat32MatmulPrecision matmul)) (\<lambda>_.
     bind (cfg config ''random_seed'') (\<lambda>seed.
     emit (SeedEverything seed True))))"

text \<open>Lines 80 to 90: the training dataset and its batch sampler.\<close>

definition build_train_sampler :: "args \<Rightarrow> dict \<Rightarrow> unit prog" where
  "build_train_sampler a config =
     bind (cfg config ''data_augmentation_size'') (\<lambda>aug.
     bind (emit (NewMixedDataset aug (truediv (Path (data_folder a)) ''binary'') ''train'')) (\<lambda>_.
     bind (emit GetLabelTypes) (\<lambda>_.
     bind (emit GetWavLengths) (\<lambda>_.
     bind (cfg config ''oversampling_weights'') (\<lambda>weights.
     bind (cfg config ''batch_max_length'') (\<lambda>batch_max_length.
     bind (cfg config ''data_augmentation_size'') (\<lambda>aug2.
     bind (lift (gt_zero aug2)) (\<lambda>augmenting.
     bind (lift (true_div batch_max_length (if augmenting then 2 else 1))) (\<lambda>max_len.
     bind (cfg config ''binning_length'') (\<lambda>binning.
     bind (cfg config ''drop_last'') (\<lambda>drop.
     emit (NewBatchSampler
             \<lparr>oversampling_weights = weights, max_length = max_len,
              binning_length = binning, drop_last = drop\<rparr>))))))))))))"

text \<open>Lines 91 to 99: the training data loader.\<close>

definition build_train_loader :: "yaml \<Rightarrow> unit prog" where
  "build_train_loader num_workers =
     bind (lift (gt_zero num_workers)) (\<lambda>persistent.
     bind (lift (gt_zero num_workers)) (\<lambda>prefetching.
     emit (NewTrainDataLoader
             \<lparr>tl_num_workers = num_workers, tl_persistent_workers = persistent,
              tl_pin_memory = True,
              tl_prefetch_factor = (if prefetching then Some 2 else None)\<rparr>)))"

text \<open>Lines 101 to 109: the validation dataset and its data loader.\<close>

definition build_valid_loader :: "args \<Rightarrow> yaml \<Rightarrow> unit prog" where
  "build_valid_loader a num_workers =
     bind (emit (NewMixedDataset (YInt 0) (truediv (Path (data_folder a)) ''binary'') ''valid'')) (\<lambda>_.
     bind (lift (gt_zero num_workers)) (\<lambda>persistent.
     emit (NewValidDataLoader
             \<lparr>vl_batch_size = 1, vl_shuffle = False, vl_num_workers = num_workers,
              vl_persistent_workers = persistent\<rparr>)))"

text \<open>Lines 75 to 109 together.\<close>

definition build_data :: "args \<Rightarrow> dict \<Rightarrow> unit prog" where
  "build_data a config =
     bind (seed_all config) (\<lambda>_.
     bind (cfg config ''dataloader_workers'') (\<lambda>num_workers.
     bind (build_train_sampler a config) (\<lambda>_.
     bind (build_train_loader num_workers) (\<lambda>_.
     build_valid_loader a num_workers))))"

text \<open>Lines 112 to 119: the task.\<close>

definition build_task :: "dict \<Rightarrow> string \<Rightarrow> unit prog" where
  "build_task config dumped =
     bind (cfg config ''model'') (\<lambda>m.
     bind (cfg config ''melspec_config'') (\<lambda>melspec.
     bind (cfg config ''optimizer_config'') (\<lambda>optimizer.
     bind (cfg config ''loss_config'') (\<lambda>loss.
     bind (cfg config ''data_augmentation_size'') (\<lambda>aug.
     bind (lift (gt_zero aug)) (\<lambda>augmenting.
     emit (NewTask
             \<lparr>vocab_text = dumped, model_config = m, melspec_config = melspec,
              optimizer_config = optimizer, loss_config = loss,
              augmentation_enabled = augmenting\<rparr>)))))))"

text \<open>\<open>pathlib.Path("ckpt") / config["model_name"]\<close>, which the script writes four times.\<close>

definition ckpt_dir :: "dict \<Rightarrow> path prog" where
  "ckpt_dir config =
     bind (cfg config ''model_name'') (\<lambda>model_name.
     lift (truediv_value (Path ''ckpt'') model_name))"

text \<open>Lines 121 to 134: the checkpoint directory and the checkpoint callback.\<close>

definition build_checkpoint :: "args \<Rightarrow> dict \<Rightarrow> callback option prog" where
  "build_checkpoint a config =
     bind (ckpt_dir config) (\<lambda>save_path.
     bind (emit (Mkdir save_path True True)) (\<lambda>_.
     if \<not> ft a then
       bind (cfg config ''num_ckpt_keep'') (\<lambda>keep.
       bind (cfg config ''val_check_interval'') (\<lambda>interval.
       (let ca = \<lparr>dirpath = str_path save_path, monitor = ''step'', mode = ''max'',
                  save_top_k = keep, filename = ''{step}'',
                  every_n_train_steps = interval, verbose = True\<rparr>
        in bind (emit (NewModelCheckpoint ca)) (\<lambda>_. ret (Some (ModelCheckpoint ca))))))
     else ret None))"

text \<open>Lines 136 to 146: the progress bar, built with the defaults of its constructor.\<close>

definition build_progress_bar :: "callback prog" where
  "build_progress_bar = bind (emit (NewProgressBar 1 0 True)) (\<lambda>_. ret (ProgressBar 1 0 True))"

text \<open>Lines 149 to 161: the trainer.\<close>

definition build_trainer :: "dict \<Rightarrow> callback option \<Rightarrow> callback \<Rightarrow> unit prog" where
  "build_trainer config checkpoint_callback progress_bar =
     bind (cfg config ''accelerator'') (\<lambda>acc.
     bind (cfg config ''devices'') (\<lambda>dev.
     bind (cfg config ''precision'') (\<lambda>prec.
     bind (cfg config ''gradient_clip_val'') (\<lambda>clip_val.
     bind (cfg config ''gradient_clip_algorithm'') (\<lambda>clip_alg.
     bind (ckpt_dir config) (\<lambda>root_dir.
     bind (cfg config ''val_check_interval'') (\<lambda>interval.
     bind (cfg config ''optimizer_config'') (\<lambda>optimizer.
     bind (lift (subscript optimizer ''total_steps'')) (\<lambda>total_steps.
     emit (NewTrainer
             \<lparr>accelerator = acc, devices = dev, precision = prec,
              gradient_clip_val = clip_val, gradient_clip_algorithm = clip_alg,
              default_root_dir = str_path root_dir, val_check_interval = interval,
              check_val_every_n_epoch = None, max_epochs = - 1, max_steps = total_steps,
              callbacks = [checkpoint_callback, Some progress_bar]\<rparr>))))))))))"

text \<open>Lines 59 to 161 together: everything before the choice of how to start.\<close>

definition prepare :: "env \<Rightarrow> args \<Rightarrow> dict prog" where
  "prepare env a =
     bind (load_config env a) (\<lambda>(config, dumped).
     bind (build_data a config) (\<lambda>_.
     bind (build_task config dumped) (\<lambda>_.
     bind (build_checkpoint a config) (\<lambda>checkpoint_callback.
     bind build_progress_bar (\<lambda>progress_bar.
     bind (build_trainer config checkpoint_callback progress_bar) (\<lambda>_.
     ret config))))))"

text \<open>
  \<open>dir.rglob("*" + suffix)\<close>: the entries below \<open>dir\<close> whose name ends with the suffix, as
  paths that start with \<open>dir\<close>.
\<close>

definition rglob :: "env \<Rightarrow> path \<Rightarrow> string \<Rightarrow> path list" where
  "rglob env dir suffix =
     map (\<lambda>rel. dir\<lparr>parts := parts dir @ rel\<rparr>)
       (filter (\<lambda>rel. rel \<noteq> [] \<and> endswith (last rel) suffix) (walk env (str_path dir)))"

text \<open>The sort key of line 172: \<open>int(x.stem.split("step=")[-1])\<close>.\<close>

definition step_of :: "path \<Rightarrow> int option" where
  "step_of x = py_int (last (py_split (stem x) ''step=''))"

text \<open>
  \<open>sorted(xs, key=key, reverse=True)\<close>: every key is computed first, then the list is
  sorted by descending key; elements with equal keys keep their order.
\<close>

definition sorted_reverse :: "('a \<Rightarrow> int option) \<Rightarrow> 'a list \<Rightarrow> error + 'a list" where
  "sorted_reverse key xs =
     (if list_all (\<lambda>x. key x \<noteq> None) xs
      then Inr (sort_key (\<lambda>x. - the (key x)) xs)
      else Inl ValueError)"

text \<open>Lines 163 to 174: how training starts, and the checkpoint path given to \<open>fit\<close>.\<close>

definition choose_ckpt_path :: "env \<Rightarrow> args \<Rightarrow> dict \<Rightarrow> string option prog" where
  "choose_ckpt_path env a config =
     (case pretrained_model_path a of
        Some p \<Rightarrow>
          bind (emit (LoadFromCheckpoint p)) (\<lambda>_.
          bind (emit LoadPretrained) (\<lambda>_.
          ret None))
      | None \<Rightarrow>
          if resume a then
            bind (ckpt_dir config) (\<lambda>dir.
            bind (emit (Rglob dir ''*.ckpt'')) (\<lambda>_.
            bind (lift (sorted_reverse step_of (rglob env dir ''.ckpt''))) (\<lambda>ckpt_path_list.
            ret (case ckpt_path_list of [] \<Rightarrow> None | x # _ \<Rightarrow> Some (str_path x)))))
          else ret None)"

text \<open>Lines 177 to 187: training, then the final weights in finetuning mode.\<close>

definition fit_and_save :: "args \<Rightarrow> dict \<Rightarrow> string option \<Rightarrow> unit prog" where
  "fit_and_save a config ckpt_path =
     bind (emit (Fit ckpt_path)) (\<lambda>_.
     if ft a then
       bind (ckpt_dir config) (\<lambda>dir.
       emit (SaveCheckpoint (str_path dir @ ''.ckpt'') True))
     else ret ())"

definition main :: "env \<Rightarrow> args \<Rightarrow> unit prog" where
  "main env a =
     bind (prepare env a) (\<lambda>config.
     bind (choose_ckpt_path env a config) (\<lambda>ckpt_path.
     fit_and_save a config ckpt_path))"

subsection \<open>Notions used in the statements\<close>

text \<open>A property of every call made during a computation, however it ends.\<close>

definition always :: "(event \<Rightarrow> bool) \<Rightarrow> 'a prog \<Rightarrow> bool" where
  "always P m = (\<forall>ev \<in> set (fst m). P ev)"

text \<open>The part of the script that makes a call.\<close>

datatype part =
    Loading | Seeding | Sampling | TrainLoading | Validation | TaskPart
  | Checkpointing | Progress | TrainerPart | Starting | Training

fun part_of :: "event \<Rightarrow> part" where
  "part_of (SetEnviron _ _) = Loading"
| "part_of (OpenFile _) = Loading"
| "part_of (SetFloat32MatmulPrecision _) = Seeding"
| "part_of (SeedEverything _ _) = Seeding"
| "part_of (NewMixedDataset _ _ prefix) = (if prefix = ''valid'' then Validation else Sampling)"
| "part_of GetLabelTypes = Sampling"
| "part_of GetWavLengths = Sampling"
| "part_of (NewBatchSampler _) = Sampling"
| "part_of (NewTrainDataLoader _) = TrainLoading"
| "part_of (NewValidDataLoader _) = Validation"
| "part_of (NewTask _) = TaskPart"
| "part_of (Mkdir _ _ _) = Checkpointing"
| "part_of (NewModelCheckpoint _) = Checkpointing"
| "part_of (NewProgressBar _ _ _) = Progress"
| "part_of (NewTrainer _) = TrainerPart"
| "part_of (LoadFromCheckpoint _) = Starting"
| "part_of LoadPretrained = Starting"
| "part_of (Rglob _ _) = Starting"
| "part_of (Fit _) = Training"
| "part_of (SaveCheckpoint _ _) = Training"




subsection \<open>A concrete run\<close>

text \<open>
  A run configuration, a global configuration that sets the model name and overrides
  the batch length, and a file system that holds them, with a given content of the
  checkpoint directory \<open>ckpt/m\<close>.
\<close>

definition example_run_config :: dict where
  "example_run_config =
     [(''model_name'', YStr ''local''),
      (''float32_matmul_precision'', YStr ''high''),
      (''random_seed'', YInt 114514),
      (''dataloader_workers'', YInt 2),
      (''oversampling_weights'', YSeq [YInt 1, YInt 1, YInt 1]),
      (''batch_max_length'', YInt 100),
      (''binning_length'', YInt 1000),
      (''drop_last'', YBool False),
      (''model'', YMap [(''hidden_dims'', YInt 128)]),
      (''optimizer_config'', YMap [(''total_steps'', YInt 100000)]),
      (''loss_config'', YMap []),
      (''data_augmentation_size'', YInt 2),
      (''num_ckpt_keep'', YInt 5),
      (''val_check_interval'', YInt 500),
      (''accelerator'', YStr ''auto''),
      (''devices'', YStr ''auto''),
      (''precision'', YStr ''bf16-mixed''),
      (''gradient_clip_val'', YFloat (1 / 2)),
      (''gradient_clip_algorithm'', YStr ''norm'')]"

definition example_global_config :: dict where
  "example_global_config =
     [(''melspec_config'', YMap [(''n_mels'', YInt 128)]),
      (''model_name'', YStr ''m''),
      (''batch_max_length'', YInt 90)]"

text \<open>The merged configuration of this run.\<close>

definition example_merged :: dict where
  "example_merged =
     [(''model_name'', YStr ''m''),
      (''float32_matmul_precision'', YStr ''high''),
      (''random_seed'', YInt 114514),
      (''dataloader_workers'', YInt 2),
      (''oversampling_weights'', YSeq [YInt 1, YInt 1, YInt 1]),
      (''batch_max_length'', YInt 90),
      (''binning_length'', YInt 1000),
      (''drop_last'', YBool False),
      (''model'', YMap [(''hidden_dims'', YInt 128)]),
      (''optimizer_config'', YMap [(''total_steps'', YInt 100000)]),
      (''loss_config'', YMap []),
      (''data_augmentation_size'', YInt 2),
      (''num_ckpt_keep'', YInt 5),
      (''val_check_interval'', YInt 500),
      (''accelerator'', YStr ''auto''),
      (''devices'', YStr ''auto''),
      (''precision'', YStr ''bf16-mixed''),
      (''gradient_clip_val'', YFloat (1 / 2)),
      (''gradient_clip_algorithm'', YStr ''norm''),
      (''melspec_config'', YMap [(''n_mels'', YInt 128)])]"

definition example_env :: "string list list \<Rightarrow> env" where
  "example_env below =
     \<lparr>read_file = (\<lambda>p.
        if p = ''configs/train_config.yaml'' then Document (YMap example_run_config)
        else if p = ''data/binary/vocab.yaml'' then Document (YMap [(''SP'', YInt 0)])
        else if p = ''data/binary/global_config.yaml'' then Document (YMap example_global_config)
        else Unreadable),
      walk = (\<lambda>d. if d = ''ckpt/m'' then below else []),
      safe_dump = (\<lambda>_. ''SP: 0'')\<rparr>"

definition example_args :: "string option \<Rightarrow> bool \<Rightarrow> bool \<Rightarrow> args" where
  "example_args p r f =
     parse_cmdline
       \<lparr>given_config_path = None, given_data_folder = None,
        given_pretrained_model_path = p, given_resume = r, given_ft = f\<rparr>"

section \<open>Dictionaries, sorting and paths\<close>

lemma map_of_setitem: "map_of (setitem k v d) = (map_of d)(k \<mapsto> v)"
  by (induction d) (auto simp: fun_eq_iff)

lemma map_of_filter_other: "k' \<noteq> k \<Longrightarrow> map_of (filter (\<lambda>e. fst e \<noteq> k) d) k' = map_of d k'"
  by (induction d) auto

lemma map_of_filter_same: "map_of (filter (\<lambda>e. fst e \<noteq> k) d) k = None"
  by (induction d) auto

lemma map_of_items: "map_of (items d) k = map_of d k"
  by (induction d arbitrary: k rule: items.induct)
     (auto simp: map_of_filter_other)

lemma set_items_subset: "set (items d) \<subseteq> set d"
  by (induction d rule: items.induct) auto

lemma distinct_items: "distinct (map fst (items d))"
proof (induction d rule: items.induct)
  case 1
  show ?case by simp
next
  case (2 k v d)
  have "k \<notin> fst ` set (items (filter (\<lambda>e. fst e \<noteq> k) d))"
    using set_items_subset [of "filter (\<lambda>e. fst e \<noteq> k) d"] by fastforce
  with 2 show ?case by simp
qed

lemma map_of_fold_setitem:
  "distinct (map fst g) \<Longrightarrow>
   map_of (fold (\<lambda>(k, v). setitem k v) g d) k =
     (case map_of g k of Some x \<Rightarrow> Some x | None \<Rightarrow> map_of d k)"
proof (induction g arbitrary: d)
  case Nil
  show ?case by simp
next
  case (Cons e g)
  obtain k0 v0 where e: "e = (k0, v0)" by (cases e)
  from Cons.prems e have notin: "map_of g k0 = None" and dist: "distinct (map fst g)"
    by (auto simp: map_of_eq_None_iff)
  show ?case
    using Cons.IH [OF dist, of "setitem k0 v0 d"] notin
    by (simp add: e map_of_setitem split: option.splits)
qed

lemma map_of_dict_update:
  "dict_update d (YMap g) = Inr (fold (\<lambda>(k, v). setitem k v) (items g) d)"
  by (simp add: dict_update_def)

lemma lookup_dict_update:
  assumes "dict_update d (YMap g) = Inr m"
  shows "map_of m k = (case map_of g k of Some x \<Rightarrow> Some x | None \<Rightarrow> map_of d k)"
  using assms map_of_fold_setitem [OF distinct_items, of g d k]
  by (simp add: dict_update_def map_of_items)


















section \<open>Computations and the parts of the script\<close>

subsection \<open>Computations\<close>

lemma bind_Inr_iff:
  "bind m f = (t, Inr y) \<longleftrightarrow> (\<exists>t1 x t2. m = (t1, Inr x) \<and> f x = (t2, Inr y) \<and> t = t1 @ t2)"
  by (cases m) (auto simp: bind_def split: sum.splits prod.splits)

lemma bind_cfg_Inr:
  "bind (cfg c k) f = (t, Inr y) \<longleftrightarrow> (\<exists>x. getitem c k = Inr x \<and> f x = (t, Inr y))"
  by (cases "getitem c k") (auto simp: bind_def cfg_def lift_def split: prod.splits)

lemma bind_lift_Inr:
  "bind (lift v) f = (t, Inr y) \<longleftrightarrow> (\<exists>x. v = Inr x \<and> f x = (t, Inr y))"
  by (cases v) (auto simp: bind_def lift_def split: prod.splits)

lemma bind_emit_Inr:
  "bind (emit ev) f = (t, Inr y) \<longleftrightarrow> (\<exists>t2. f () = (t2, Inr y) \<and> t = ev # t2)"
  by (auto simp: bind_def emit_def split: prod.splits)

lemma emit_Inr: "emit ev = (t, Inr y) \<longleftrightarrow> t = [ev]"
  by (auto simp: emit_def)

lemma ret_Inr: "ret x = (t, Inr y) \<longleftrightarrow> t = [] \<and> y = x"
  by (auto simp: ret_def)

lemma lift_Inr: "lift v = (t, Inr y) \<longleftrightarrow> t = [] \<and> v = Inr y"
  by (auto simp: lift_def)

lemmas success_simps = bind_cfg_Inr bind_lift_Inr bind_emit_Inr emit_Inr ret_Inr lift_Inr

lemma bind_ok: "m = (t1, Inr x) \<Longrightarrow> bind m f = (t1 @ fst (f x), snd (f x))"
  by (simp add: bind_def split: prod.splits)


lemma always_bind:
  "always P m \<Longrightarrow> (\<And>x. snd m = Inr x \<Longrightarrow> always P (f x)) \<Longrightarrow> always P (bind m f)"
  by (cases m) (auto simp: always_def bind_def split: sum.splits prod.splits)

lemma always_bind_any:
  "always P m \<Longrightarrow> (\<And>x. always P (f x)) \<Longrightarrow> always P (bind m f)"
  by (rule always_bind)

lemma always_emit: "P ev \<Longrightarrow> always P (emit ev)"
  by (simp add: always_def emit_def)

lemma always_ret: "always P (ret x)"
  by (simp add: always_def ret_def)

lemma always_lift: "always P (lift v)"
  by (simp add: always_def lift_def)

lemma always_cfg: "always P (cfg c k)"
  by (simp add: always_def cfg_def lift_def)

lemma always_weaken: "always P m \<Longrightarrow> (\<And>ev. P ev \<Longrightarrow> Q ev) \<Longrightarrow> always Q m"
  by (simp add: always_def)

lemma alwaysD: "always P m \<Longrightarrow> ev \<in> set (fst m) \<Longrightarrow> P ev"
  by (simp add: always_def)

lemma snd_cfg: "snd (cfg c k) = getitem c k"
  by (simp add: cfg_def lift_def)

lemma snd_lift: "snd (lift v) = v"
  by (simp add: lift_def)

lemmas always_steps = always_bind_any always_emit always_ret always_lift always_cfg

subsection \<open>Which part of the script makes which calls\<close>

lemma load_yaml_part: "always (\<lambda>ev. part_of ev = Loading) (load_yaml env p)"
  unfolding load_yaml_def
  by (intro always_steps) (simp_all add: always_lift always_ret split: file_state.splits)

lemma load_config_part: "always (\<lambda>ev. part_of ev = Loading) (load_config env a)"
  unfolding load_config_def Let_def
  by (intro always_steps load_yaml_part) simp_all

lemma seed_all_part: "always (\<lambda>ev. part_of ev = Seeding) (seed_all config)"
  unfolding seed_all_def
  by (intro always_steps) simp_all

lemma build_train_sampler_part: "always (\<lambda>ev. part_of ev = Sampling) (build_train_sampler a config)"
  unfolding build_train_sampler_def
  by (intro always_steps) simp_all

lemma build_train_loader_part: "always (\<lambda>ev. part_of ev = TrainLoading) (build_train_loader n)"
  unfolding build_train_loader_def
  by (intro always_steps) simp_all

lemma build_valid_loader_part: "always (\<lambda>ev. part_of ev = Validation) (build_valid_loader a n)"
  unfolding build_valid_loader_def
  by (intro always_steps) simp_all

lemma build_data_part:
  "always (\<lambda>ev. part_of ev \<in> {Seeding, Sampling, TrainLoading, Validation}) (build_data a config)"
  unfolding build_data_def
  apply (intro always_bind_any always_cfg)
     apply (rule always_weaken [OF seed_all_part], simp)
    apply (rule always_weaken [OF build_train_sampler_part], simp)
   apply (rule always_weaken [OF build_train_loader_part], simp)
  apply (rule always_weaken [OF build_valid_loader_part], simp)
  done

lemma build_task_part: "always (\<lambda>ev. part_of ev = TaskPart) (build_task config txt)"
  unfolding build_task_def
  by (intro always_steps) simp_all

lemma ckpt_dir_part: "always P (ckpt_dir config)"
  unfolding ckpt_dir_def
  by (intro always_steps)

lemma build_checkpoint_part: "always (\<lambda>ev. part_of ev = Checkpointing) (build_checkpoint a config)"
  unfolding build_checkpoint_def Let_def
  by (intro always_steps ckpt_dir_part) (simp_all add: always_steps ckpt_dir_part)

lemma build_progress_bar_part: "always (\<lambda>ev. part_of ev = Progress) build_progress_bar"
  unfolding build_progress_bar_def
  by (intro always_steps) simp_all

lemma build_trainer_part: "always (\<lambda>ev. part_of ev = TrainerPart) (build_trainer config cb pb)"
  unfolding build_trainer_def
  by (intro always_steps ckpt_dir_part) simp_all

lemma choose_ckpt_path_part: "always (\<lambda>ev. part_of ev = Starting) (choose_ckpt_path env a config)"
  unfolding choose_ckpt_path_def
  by (cases "pretrained_model_path a") (auto intro!: always_steps ckpt_dir_part)

lemma fit_and_save_part: "always (\<lambda>ev. part_of ev = Training) (fit_and_save a config k)"
  unfolding fit_and_save_def
  by (auto intro!: always_steps ckpt_dir_part)

subsection \<open>What each part has done when it succeeds\<close>

lemma truediv_value_Inr:
  "truediv_value p v = Inr d \<longleftrightarrow> (\<exists>s. v = YStr s \<and> d = truediv p s)"
  by (cases v) (auto simp: truediv_value_def)

lemma ckpt_dir_Inr:
  "ckpt_dir config = (t, Inr dir) \<longleftrightarrow>
     t = [] \<and> (\<exists>mn. getitem config ''model_name'' = Inr (YStr mn) \<and> dir = truediv (Path ''ckpt'') mn)"
  unfolding ckpt_dir_def success_simps truediv_value_Inr
  by auto

lemma ckpt_dir_eq:
  "getitem config ''model_name'' = Inr (YStr mn) \<Longrightarrow>
   ckpt_dir config = ([], Inr (truediv (Path ''ckpt'') mn))"
  by (simp add: ckpt_dir_Inr)

lemma load_yaml_Inr:
  "load_yaml env p = (t, Inr v) \<longleftrightarrow> t = [OpenFile p] \<and> read_file env p = Document v"
  unfolding load_yaml_def success_simps
  by (cases "read_file env p") (auto simp: lift_def ret_def)

lemma load_config_Inr:
  "load_config env a = (t, Inr (config, dumped)) \<longleftrightarrow>
     (\<exists>run vocab glob.
        read_file env (config_path a) = Document run \<and>
        read_file env (str_path (truediv (truediv (Path (data_folder a)) ''binary'') ''vocab.yaml''))
          = Document vocab \<and>
        read_file env
          (str_path (truediv (truediv (Path (data_folder a)) ''binary'') ''global_config.yaml''))
          = Document glob \<and>
        update run glob = Inr config \<and> dumped = safe_dump env vocab \<and>
        t = [SetEnviron ''TORCH_CUDNN_V8_API_ENABLED'' ''1'', OpenFile (config_path a),
             OpenFile (str_path (truediv (truediv (Path (data_folder a)) ''binary'') ''vocab.yaml'')),
             OpenFile (str_path (truediv (truediv (Path (data_folder a)) ''binary'')
                ''global_config.yaml''))])"
  unfolding load_config_def Let_def success_simps bind_Inr_iff load_yaml_Inr
  by auto

lemma build_checkpoint_Inr:
  "build_checkpoint a config = (t, Inr cb) \<longleftrightarrow>
     (\<exists>dir. ckpt_dir config = ([], Inr dir) \<and>
        (if ft a then t = [Mkdir dir True True] \<and> cb = None
         else \<exists>keep interval.
                getitem config ''num_ckpt_keep'' = Inr keep \<and>
                getitem config ''val_check_interval'' = Inr interval \<and>
                t = [Mkdir dir True True,
                     NewModelCheckpoint
                       \<lparr>dirpath = str_path dir, monitor = ''step'', mode = ''max'',
                        save_top_k = keep, filename = ''{step}'',
                        every_n_train_steps = interval, verbose = True\<rparr>] \<and>
                cb = Some (ModelCheckpoint
                       \<lparr>dirpath = str_path dir, monitor = ''step'', mode = ''max'',
                        save_top_k = keep, filename = ''{step}'',
                        every_n_train_steps = interval, verbose = True\<rparr>)))"
  unfolding build_checkpoint_def Let_def bind_Inr_iff [of "ckpt_dir config"] ckpt_dir_Inr
  by (cases "ft a") (auto simp: success_simps)

lemma build_progress_bar_eq:
  "build_progress_bar = ([NewProgressBar 1 0 True], Inr (ProgressBar 1 0 True))"
  by (simp add: build_progress_bar_def bind_def emit_def ret_def)



lemma fit_and_save_Inr:
  "fit_and_save a config k = (t, Inr u) \<longleftrightarrow>
     (if ft a
      then \<exists>dir. ckpt_dir config = ([], Inr dir) \<and>
             t = [Fit k, SaveCheckpoint (str_path dir @ ''.ckpt'') True]
      else t = [Fit k])"
  unfolding fit_and_save_def bind_emit_Inr
  by (cases "ft a") (auto simp: success_simps bind_Inr_iff ckpt_dir_Inr)

lemma fit_and_save_eq:
  "ckpt_dir config = ([], Inr dir) \<Longrightarrow>
   fit_and_save a config k =
     (Fit k # (if ft a then [SaveCheckpoint (str_path dir @ ''.ckpt'') True] else []), Inr ())"
  by (simp add: fit_and_save_Inr)


lemma build_valid_loader_Inr:
  "build_valid_loader a n = (t, Inr u) \<Longrightarrow>
     \<exists>va. t = [NewMixedDataset (YInt 0) (truediv (Path (data_folder a)) ''binary'') ''valid'',
               NewValidDataLoader va]"
  unfolding build_valid_loader_def success_simps
  by auto

lemma build_data_Inr:
  "build_data a config = (t, Inr u) \<Longrightarrow>
     \<exists>t2 n t4. build_train_sampler a config = (t2, Inr ()) \<and>
        build_valid_loader a n = (t4, Inr ()) \<and> set t2 \<subseteq> set t \<and> set t4 \<subseteq> set t"
  by (fastforce simp: build_data_def bind_cfg_Inr bind_Inr_iff)

lemma prepare_Inr:
  "prepare env a = (t, Inr config) \<longleftrightarrow>
     (\<exists>t1 dumped t2 t3 t4 cb t6.
        load_config env a = (t1, Inr (config, dumped)) \<and>
        build_data a config = (t2, Inr ()) \<and>
        build_task config dumped = (t3, Inr ()) \<and>
        build_checkpoint a config = (t4, Inr cb) \<and>
        build_trainer config cb (ProgressBar 1 0 True) = (t6, Inr ()) \<and>
        t = t1 @ t2 @ t3 @ t4 @ [NewProgressBar 1 0 True] @ t6)"
  by (auto simp: prepare_def bind_Inr_iff build_progress_bar_eq ret_Inr)

lemma main_Inr:
  "main env a = (t, Inr u) \<longleftrightarrow>
     (\<exists>t0 config t7 k t8.
        prepare env a = (t0, Inr config) \<and>
        choose_ckpt_path env a config = (t7, Inr k) \<and>
        fit_and_save a config k = (t8, Inr ()) \<and> t = t0 @ t7 @ t8)"
  by (auto simp: main_def bind_Inr_iff)

lemma main_after_prepare:
  "prepare env a = (t0, Inr config) \<Longrightarrow>
   main env a =
     (t0 @ fst (bind (choose_ckpt_path env a config) (fit_and_save a config)),
      snd (bind (choose_ckpt_path env a config) (fit_and_save a config)))"
  unfolding main_def by (rule bind_ok)

lemma prepare_ckpt_dir:
  "prepare env a = (t0, Inr config) \<Longrightarrow> \<exists>dir. ckpt_dir config = ([], Inr dir)"
  unfolding prepare_Inr build_checkpoint_Inr by blast

lemma prepare_part: "always (\<lambda>ev. part_of ev \<noteq> Starting \<and> part_of ev \<noteq> Training) (prepare env a)"
  unfolding prepare_def
  apply (intro always_bind_any)
       apply (rule always_weaken [OF load_config_part], simp)
      apply (clarsimp, rule always_bind_any)
       apply (rule always_weaken [OF build_data_part], auto)[1]
      apply (rule always_bind_any)
       apply (rule always_weaken [OF build_task_part], simp)
      apply (rule always_bind_any)
       apply (rule always_weaken [OF build_checkpoint_part], simp)
      apply (rule always_bind_any)
       apply (rule always_weaken [OF build_progress_bar_part], simp)
      apply (rule always_bind_any)
       apply (rule always_weaken [OF build_trainer_part], simp)
      apply (rule always_ret)
  done

section \<open>Properties of single parts\<close>






lemma build_valid_loader_fixed:
  "always (\<lambda>ev. (\<forall>sz p. ev = NewMixedDataset sz p ''valid'' \<longrightarrow> sz = YInt 0) \<and>
                (\<forall>va. ev = NewValidDataLoader va \<longrightarrow> vl_batch_size va = 1 \<and> \<not> vl_shuffle va))
     (build_valid_loader a n)"
  unfolding build_valid_loader_def
  by (intro always_steps) simp_all

lemma prepare_config:
  assumes "snd (prepare env a) = Inr config"
  shows "\<exists>dumped. snd (load_config env a) = Inr (config, dumped)"
proof -
  from assms have "prepare env a = (fst (prepare env a), Inr config)"
    by (metis prod.collapse)
  then obtain t1 dumped where "load_config env a = (t1, Inr (config, dumped))"
    unfolding prepare_Inr by blast
  then show ?thesis by auto
qed

lemma always_prepare:
  assumes lc: "always P (load_config env a)"
    and rest: "\<And>config dumped. snd (load_config env a) = Inr (config, dumped) \<Longrightarrow>
        always P (build_data a config) \<and> always P (build_task config dumped) \<and>
        always P (build_checkpoint a config) \<and> P (NewProgressBar 1 0 True) \<and>
        (\<forall>cb. snd (build_checkpoint a config) = Inr cb \<longrightarrow>
           always P (build_trainer config cb (ProgressBar 1 0 True)))"
  shows "always P (prepare env a)"
  unfolding prepare_def
proof (rule always_bind [OF lc])
  fix x :: "dict \<times> string"
  assume ok: "snd (load_config env a) = Inr x"
  obtain config dumped where x: "x = (config, dumped)" by (cases x)
  note r = rest [OF ok [unfolded x]]
  have pb: "always P build_progress_bar"
    using r by (simp add: build_progress_bar_eq always_def)
  have "always P
     (bind (build_data a config) (\<lambda>_.
      bind (build_task config dumped) (\<lambda>_.
      bind (build_checkpoint a config) (\<lambda>checkpoint_callback.
      bind build_progress_bar (\<lambda>progress_bar.
      bind (build_trainer config checkpoint_callback progress_bar) (\<lambda>_. ret config))))))"
    apply (rule always_bind_any, simp add: r)
    apply (rule always_bind_any, simp add: r)
    apply (rule always_bind, simp add: r)
    apply (rule always_bind [OF pb])
    apply (rule always_bind_any)
     apply (use r in \<open>auto simp: build_progress_bar_eq\<close>)[1]
    apply (rule always_ret)
    done
  then show "always P (case x of (config, dumped) \<Rightarrow>
      bind (build_data a config) (\<lambda>_.
      bind (build_task config dumped) (\<lambda>_.
      bind (build_checkpoint a config) (\<lambda>checkpoint_callback.
      bind build_progress_bar (\<lambda>progress_bar.
      bind (build_trainer config checkpoint_callback progress_bar) (\<lambda>_. ret config))))))"
    by (simp add: x)
qed

lemma always_main:
  assumes prep: "always P (prepare env a)"
    and start: "\<And>config dumped. snd (load_config env a) = Inr (config, dumped) \<Longrightarrow>
        always P (choose_ckpt_path env a config)"
    and train: "\<And>config dumped k. snd (load_config env a) = Inr (config, dumped) \<Longrightarrow>
        snd (choose_ckpt_path env a config) = Inr k \<Longrightarrow> always P (fit_and_save a config k)"
  shows "always P (main env a)"
  unfolding main_def
proof (rule always_bind [OF prep])
  fix config
  assume "snd (prepare env a) = Inr config"
  from prepare_config [OF this] obtain dumped where
    l: "snd (load_config env a) = Inr (config, dumped)" ..
  show "always P (bind (choose_ckpt_path env a config) (fit_and_save a config))"
    by (rule always_bind [OF start [OF l]]) (rule train [OF l])
qed

lemma always_whole:
  assumes "always P (load_config env a)"
    and "\<And>config dumped. snd (load_config env a) = Inr (config, dumped) \<Longrightarrow>
           always P (build_data a config)"
    and "\<And>config dumped. snd (load_config env a) = Inr (config, dumped) \<Longrightarrow>
           always P (build_task config dumped)"
    and "\<And>config dumped. snd (load_config env a) = Inr (config, dumped) \<Longrightarrow>
           always P (build_checkpoint a config)"
    and "P (NewProgressBar 1 0 True)"
    and "\<And>config dumped cb. snd (load_config env a) = Inr (config, dumped) \<Longrightarrow>
           snd (build_checkpoint a config) = Inr cb \<Longrightarrow>
           always P (build_trainer config cb (ProgressBar 1 0 True))"
    and "\<And>config dumped. snd (load_config env a) = Inr (config, dumped) \<Longrightarrow>
           always P (choose_ckpt_path env a config)"
    and "\<And>config dumped k. snd (load_config env a) = Inr (config, dumped) \<Longrightarrow>
           snd (choose_ckpt_path env a config) = Inr k \<Longrightarrow>
           always P (fit_and_save a config k)"
  shows "always P (main env a)"
proof (rule always_main)
  show "always P (prepare env a)"
    by (rule always_prepare) (use assms in blast)+
qed (use assms(7,8) in blast)+

lemma always_build_data:
  assumes "always P (seed_all c)" "always P (build_train_sampler a c)"
    "\<And>n. always P (build_train_loader n)" "\<And>n. always P (build_valid_loader a n)"
  shows "always P (build_data a c)"
  unfolding build_data_def
  by (intro always_bind_any always_cfg assms)

section \<open>The concrete run, evaluated\<close>

lemma snd_bind: "snd (bind m f) = (case snd m of Inl e \<Rightarrow> Inl e | Inr x \<Rightarrow> snd (f x))"
  by (cases m) (simp add: bind_def split: sum.splits prod.splits)

lemma snd_emit: "snd (emit ev) = Inr ()"
  by (simp add: emit_def)

lemma snd_ret: "snd (ret x) = Inr x"
  by (simp add: ret_def)

lemmas snd_simps = snd_bind snd_emit snd_ret snd_cfg snd_lift

lemma example_load:
  "load_config (example_env below) (example_args p r f) =
     ([SetEnviron ''TORCH_CUDNN_V8_API_ENABLED'' ''1'', OpenFile ''configs/train_config.yaml'',
       OpenFile ''data/binary/vocab.yaml'', OpenFile ''data/binary/global_config.yaml''],
      Inr (example_merged, ''SP: 0''))"
  by (simp add: load_config_def load_yaml_def example_env_def example_args_def parse_cmdline_def
      option_value_def config_path_option_def data_folder_option_def Path_def truediv_def
      py_split_def startswith_def root_of_def str_path_def bind_def emit_def ret_def lift_def
      update_def dict_update_def example_global_config_def example_run_config_def
      example_merged_def)

lemma example_getitem:
  "getitem example_merged ''model_name'' = Inr (YStr ''m'')"
  "getitem example_merged ''float32_matmul_precision'' = Inr (YStr ''high'')"
  "getitem example_merged ''random_seed'' = Inr (YInt 114514)"
  "getitem example_merged ''dataloader_workers'' = Inr (YInt 2)"
  "getitem example_merged ''oversampling_weights'' = Inr (YSeq [YInt 1, YInt 1, YInt 1])"
  "getitem example_merged ''batch_max_length'' = Inr (YInt 90)"
  "getitem example_merged ''binning_length'' = Inr (YInt 1000)"
  "getitem example_merged ''drop_last'' = Inr (YBool False)"
  "getitem example_merged ''model'' = Inr (YMap [(''hidden_dims'', YInt 128)])"
  "getitem example_merged ''optimizer_config'' = Inr (YMap [(''total_steps'', YInt 100000)])"
  "getitem example_merged ''loss_config'' = Inr (YMap [])"
  "getitem example_merged ''data_augmentation_size'' = Inr (YInt 2)"
  "getitem example_merged ''num_ckpt_keep'' = Inr (YInt 5)"
  "getitem example_merged ''val_check_interval'' = Inr (YInt 500)"
  "getitem example_merged ''accelerator'' = Inr (YStr ''auto'')"
  "getitem example_merged ''devices'' = Inr (YStr ''auto'')"
  "getitem example_merged ''precision'' = Inr (YStr ''bf16-mixed'')"
  "getitem example_merged ''gradient_clip_val'' = Inr (YFloat (1 / 2))"
  "getitem example_merged ''gradient_clip_algorithm'' = Inr (YStr ''norm'')"
  "getitem example_merged ''melspec_config'' = Inr (YMap [(''n_mels'', YInt 128)])"
  by (simp_all add: getitem_def example_merged_def)

lemma example_total_steps:
  "subscript (YMap [(''total_steps'', YInt 100000)]) ''total_steps'' = Inr (YInt 100000)"
  by (simp add: subscript_def getitem_def)

lemma example_ckpt_dir: "ckpt_dir example_merged = ([], Inr (truediv (Path ''ckpt'') ''m''))"
  by (simp add: ckpt_dir_eq example_getitem)

lemma example_build_data: "snd (build_data a example_merged) = Inr ()"
  by (simp add: snd_simps build_data_def seed_all_def build_train_sampler_def
      build_train_loader_def build_valid_loader_def example_getitem gt_zero_def true_div_def
      num_val_def)

lemma example_build_task: "snd (build_task example_merged t) = Inr ()"
  by (simp add: snd_simps build_task_def example_getitem gt_zero_def num_val_def)

lemma example_build_checkpoint: "\<exists>cb. snd (build_checkpoint a example_merged) = Inr cb"
  by (simp add: snd_simps build_checkpoint_def example_getitem example_ckpt_dir Let_def)

lemma example_build_trainer: "snd (build_trainer example_merged cb pb) = Inr ()"
  by (simp add: snd_simps build_trainer_def example_getitem example_ckpt_dir example_total_steps)

lemma example_prepare:
  "snd (prepare (example_env below) (example_args p r f)) = Inr example_merged"
proof -
  obtain cb where cb: "snd (build_checkpoint (example_args p r f) example_merged) = Inr cb"
    using example_build_checkpoint by blast
  show ?thesis
    by (simp add: prepare_def snd_simps example_load example_build_data example_build_task cb
        example_build_trainer build_progress_bar_eq)
qed

lemma example_prepare_eq:
  "prepare (example_env below) (example_args p r f) =
     (fst (prepare (example_env below) (example_args p r f)), Inr example_merged)"
  using example_prepare [of below p r f] by (metis prod.collapse)

section \<open>The command line and the configuration\<close>

lemma example_args_fields:
  "config_path (example_args p r f) = ''configs/train_config.yaml''"
  "data_folder (example_args p r f) = ''data''"
  "pretrained_model_path (example_args p r f) = p"
  "resume (example_args p r f) = r"
  "ft (example_args p r f) = f"
  by (simp_all add: example_args_def parse_cmdline_def option_value_def flag_value_def
      config_path_option_def data_folder_option_def pretrained_model_path_option_def
      resume_option_def ft_option_def split: option.splits)

lemma example_main_scratch:
  "snd (main (example_env below) (example_args None False f)) = Inr ()"
  by (simp add: main_after_prepare [OF example_prepare_eq] snd_simps choose_ckpt_path_def
      example_args_fields fit_and_save_def example_ckpt_dir)

text \<open>
  Claim C7. The command-line options have these defaults: \<open>--config_path\<close>/\<open>-c\<close> is
  \<open>configs/train_config.yaml\<close>, \<open>--data_folder\<close>/\<open>-d\<close> is \<open>data\<close>,
  \<open>--pretrained_model_path\<close>/\<open>-p\<close> is \<open>None\<close>, and \<open>--resume\<close>/\<open>-r\<close> and
  \<open>--ft\<close>/\<open>-ft\<close> are flags that are \<open>False\<close> unless given. Whatever the rest of the command
  line is, an option that is absent has its default and an option that is given has the value
  given; with no pretrained model and no \<open>--resume\<close>, training starts from scratch: nothing
  is loaded or scanned and the checkpoint path is \<open>None\<close>.
\<close>

theorem cli_defaults:
  "names config_path_option = [''--config_path'', ''-c''] \<and>
   config_path (parse_cmdline (cl\<lparr>given_config_path := None\<rparr>)) = ''configs/train_config.yaml'' \<and>
   config_path (parse_cmdline (cl\<lparr>given_config_path := Some s\<rparr>)) = s \<and>
   names data_folder_option = [''--data_folder'', ''-d''] \<and>
   data_folder (parse_cmdline (cl\<lparr>given_data_folder := None\<rparr>)) = ''data'' \<and>
   data_folder (parse_cmdline (cl\<lparr>given_data_folder := Some s\<rparr>)) = s \<and>
   names pretrained_model_path_option = [''--pretrained_model_path'', ''-p''] \<and>
   pretrained_model_path (parse_cmdline (cl\<lparr>given_pretrained_model_path := None\<rparr>)) = None \<and>
   pretrained_model_path (parse_cmdline (cl\<lparr>given_pretrained_model_path := Some s\<rparr>)) = Some s \<and>
   names resume_option = [''--resume'', ''-r''] \<and> is_flag resume_option \<and>
   resume (parse_cmdline (cl\<lparr>given_resume := False\<rparr>)) = False \<and>
   resume (parse_cmdline (cl\<lparr>given_resume := True\<rparr>)) = True \<and>
   names ft_option = [''--ft'', ''-ft''] \<and> is_flag ft_option \<and>
   ft (parse_cmdline (cl\<lparr>given_ft := False\<rparr>)) = False \<and>
   ft (parse_cmdline (cl\<lparr>given_ft := True\<rparr>)) = True \<and>
   choose_ckpt_path env
     (parse_cmdline (cl\<lparr>given_pretrained_model_path := None, given_resume := False\<rparr>)) config
     = ([], Inr None)"
  by (simp add: parse_cmdline_def option_value_def flag_value_def config_path_option_def
      data_folder_option_def pretrained_model_path_option_def resume_option_def ft_option_def
      choose_ckpt_path_def ret_def)

text \<open>
  The command line without any option.
\<close>

theorem cli_defaults_witness:
  "config_path (parse_cmdline
     \<lparr>given_config_path = None, given_data_folder = None, given_pretrained_model_path = None,
      given_resume = False, given_ft = False\<rparr>) = ''configs/train_config.yaml'' \<and>
   data_folder (parse_cmdline
     \<lparr>given_config_path = None, given_data_folder = None, given_pretrained_model_path = None,
      given_resume = False, given_ft = False\<rparr>) = ''data'' \<and>
   pretrained_model_path (parse_cmdline
     \<lparr>given_config_path = None, given_data_folder = None, given_pretrained_model_path = None,
      given_resume = False, given_ft = False\<rparr>) = None \<and>
   \<not> resume (parse_cmdline
     \<lparr>given_config_path = None, given_data_folder = None, given_pretrained_model_path = None,
      given_resume = False, given_ft = False\<rparr>) \<and>
   \<not> ft (parse_cmdline
     \<lparr>given_config_path = None, given_data_folder = None, given_pretrained_model_path = None,
      given_resume = False, given_ft = False\<rparr>)"
  using cli_defaults [of "\<lparr>given_config_path = None, given_data_folder = None,
      given_pretrained_model_path = None, given_resume = False, given_ft = False\<rparr>"]
  by simp

text \<open>
  Claim C3. The run configuration read from \<open>--config_path\<close> and the global configuration
  read from \<open><data_folder>/binary/global_config.yaml\<close> are merged so that the global
  configuration overrides and extends the run configuration: when both files hold mappings,
  loading succeeds, a key of the global configuration has the global value, and any other key
  has what the run configuration has for it (its value, or a \<open>KeyError\<close>).
\<close>

theorem merged_config:
  assumes "read_file env (config_path a) = Document (YMap run)"
    and "read_file env (str_path (truediv (truediv (Path (data_folder a)) ''binary'') ''vocab.yaml''))
           = Document vocab"
    and "read_file env
           (str_path (truediv (truediv (Path (data_folder a)) ''binary'') ''global_config.yaml''))
           = Document (YMap glob)"
  shows "\<exists>t config.
           load_config env a = (t, Inr (config, safe_dump env vocab)) \<and>
           map_of config = map_of run ++ map_of glob \<and>
           (\<forall>k v. map_of glob k = Some v \<longrightarrow> getitem config k = Inr v) \<and>
           (\<forall>k. map_of glob k = None \<longrightarrow> getitem config k = getitem run k)"
proof -
  define config where "config = fold (\<lambda>(k, v). setitem k v) (items glob) run"
  have upd: "update (YMap run) (YMap glob) = Inr config"
    by (simp add: update_def dict_update_def config_def)
  have look: "map_of config k = (case map_of glob k of Some x \<Rightarrow> Some x | None \<Rightarrow> map_of run k)" for k
    using map_of_fold_setitem [OF distinct_items, of glob run k]
    by (simp add: config_def map_of_items)
  have "map_of config = map_of run ++ map_of glob"
    by (rule ext) (simp add: look map_add_def)
  moreover have "\<exists>t. load_config env a = (t, Inr (config, safe_dump env vocab))"
    unfolding load_config_Inr using assms upd by blast
  moreover have "\<forall>k v. map_of glob k = Some v \<longrightarrow> getitem config k = Inr v"
    by (simp add: getitem_def look)
  moreover have "\<forall>k. map_of glob k = None \<longrightarrow> getitem config k = getitem run k"
    by (simp add: getitem_def look)
  ultimately show ?thesis by blast
qed

lemma example_read:
  "read_file (example_env below) ''configs/train_config.yaml'' = Document (YMap example_run_config)"
  "read_file (example_env below) ''data/binary/vocab.yaml'' = Document (YMap [(''SP'', YInt 0)])"
  "read_file (example_env below) ''data/binary/global_config.yaml'' = Document (YMap example_global_config)"
  "safe_dump (example_env below) v = ''SP: 0''"
  by (simp_all add: example_env_def)

lemma example_paths:
  "str_path (truediv (truediv (Path ''data'') ''binary'') ''vocab.yaml'') = ''data/binary/vocab.yaml''"
  "str_path (truediv (truediv (Path ''data'') ''binary'') ''global_config.yaml'') = ''data/binary/global_config.yaml''"
  "str_path (truediv (Path ''ckpt'') ''m'') = ''ckpt/m''"
  by (simp_all add: Path_def truediv_def py_split_def startswith_def root_of_def str_path_def)

text \<open>
  The example run: both files hold mappings, and the global model name overrides the local one.
\<close>

theorem merged_config_witness:
  "\<exists>t config.
     load_config (example_env []) (example_args None False False) = (t, Inr (config, ''SP: 0'')) \<and>
     map_of config = map_of example_run_config ++ map_of example_global_config \<and>
     getitem config ''model_name'' = Inr (YStr ''m'') \<and>
     getitem config ''random_seed'' = Inr (YInt 114514)"
proof -
  obtain t config where
    "load_config (example_env []) (example_args None False False)
       = (t, Inr (config, safe_dump (example_env []) (YMap [(''SP'', YInt 0)])))"
    "map_of config = map_of example_run_config ++ map_of example_global_config"
    "\<forall>k v. map_of example_global_config k = Some v \<longrightarrow> getitem config k = Inr v"
    "\<forall>k. map_of example_global_config k = None \<longrightarrow> getitem config k = getitem example_run_config k"
    using merged_config [of "example_env []" "example_args None False False"
        example_run_config "YMap [(''SP'', YInt 0)]" example_global_config]
    by (auto simp: example_args_fields example_read example_paths)
  moreover have "map_of example_global_config ''model_name'' = Some (YStr ''m'')"
    "map_of example_global_config ''random_seed'' = None"
    "getitem example_run_config ''random_seed'' = Inr (YInt 114514)"
    by (simp_all add: example_global_config_def example_run_config_def getitem_def)
  ultimately show ?thesis
    by (auto simp: example_read)
qed

section \<open>The data pipeline\<close>

lemma main_success_data:
  assumes "snd (main env a) = Inr ()"
  shows "\<exists>config dumped t2 t3.
           snd (load_config env a) = Inr (config, dumped) \<and>
           build_data a config = (t2, Inr ()) \<and> set t2 \<subseteq> set (fst (main env a)) \<and>
           build_task config dumped = (t3, Inr ()) \<and> set t3 \<subseteq> set (fst (main env a))"
proof -
  from assms have "main env a = (fst (main env a), Inr ())"
    by (metis prod.collapse)
  then obtain t0 config t7 t8 where
    p: "prepare env a = (t0, Inr config)" and t: "fst (main env a) = t0 @ t7 @ t8"
    unfolding main_Inr by blast
  from p obtain t1 dumped t2 t3 t4 t6 where
    "load_config env a = (t1, Inr (config, dumped))"
    "build_data a config = (t2, Inr ())"
    "build_task config dumped = (t3, Inr ())"
    "t0 = t1 @ t2 @ t3 @ t4 @ [NewProgressBar 1 0 True] @ t6"
    unfolding prepare_Inr by blast
  with t show ?thesis
    by (intro exI [of _ config] exI [of _ dumped] exI [of _ t2] exI [of _ t3]) auto
qed



text \<open>
  Claim C10. Whatever the configuration and the command line, the validation dataset is
  built with augmentation size 0, and its data loader with batch size 1 and without
  shuffling. This holds for every such call that a run makes, however the run ends, and a run
  that succeeds makes both calls.
\<close>

theorem validation_pipeline_fixed:
  "(\<forall>sz p. NewMixedDataset sz p ''valid'' \<in> set (fst (main env a)) \<longrightarrow> sz = YInt 0) \<and>
   (\<forall>va. NewValidDataLoader va \<in> set (fst (main env a)) \<longrightarrow>
      vl_batch_size va = 1 \<and> vl_shuffle va = False) \<and>
   (snd (main env a) = Inr () \<longrightarrow>
      (\<exists>p. NewMixedDataset (YInt 0) p ''valid'' \<in> set (fst (main env a))) \<and>
      (\<exists>va. NewValidDataLoader va \<in> set (fst (main env a))))"
proof -
  let ?P = "\<lambda>ev. (\<forall>sz p. ev = NewMixedDataset sz p ''valid'' \<longrightarrow> sz = YInt 0) \<and>
                (\<forall>va. ev = NewValidDataLoader va \<longrightarrow> vl_batch_size va = 1 \<and> \<not> vl_shuffle va)"
  have "always ?P (main env a)"
  proof (rule always_whole)
    show "always ?P (load_config env a)"
      by (rule always_weaken [OF load_config_part]) auto
    show "always ?P (build_data a c)" for c
      apply (rule always_build_data)
         apply (rule always_weaken [OF seed_all_part], auto)[1]
        apply (rule always_weaken [OF build_train_sampler_part], auto)[1]
       apply (rule always_weaken [OF build_train_loader_part], auto)[1]
      apply (rule build_valid_loader_fixed)
      done
    show "always ?P (build_task c d)" for c d
      by (rule always_weaken [OF build_task_part]) auto
    show "always ?P (build_checkpoint a c)" for c
      by (rule always_weaken [OF build_checkpoint_part]) auto
    show "?P (NewProgressBar 1 0 True)" by simp
    show "always ?P (build_trainer c cb (ProgressBar 1 0 True))" for c cb
      by (rule always_weaken [OF build_trainer_part]) auto
    show "always ?P (choose_ckpt_path env a c)" for c
      by (rule always_weaken [OF choose_ckpt_path_part]) auto
    show "always ?P (fit_and_save a c k)" for c k
      by (rule always_weaken [OF fit_and_save_part]) auto
  qed
  then have all: "\<forall>ev\<in>set (fst (main env a)). ?P ev"
    by (simp add: always_def)
  have ex: "(\<exists>p. NewMixedDataset (YInt 0) p ''valid'' \<in> set (fst (main env a))) \<and>
            (\<exists>va. NewValidDataLoader va \<in> set (fst (main env a)))"
    if ok: "snd (main env a) = Inr ()"
  proof -
    from main_success_data [OF ok] obtain c t2 where
      d: "build_data a c = (t2, Inr ())" "set t2 \<subseteq> set (fst (main env a))"
      by blast
    from build_data_Inr [OF d(1)] obtain n t4 where
      "build_valid_loader a n = (t4, Inr ())" "set t4 \<subseteq> set t2" by blast
    with build_valid_loader_Inr [of a n t4] d(2) show ?thesis
      by fastforce
  qed
  from all ex show ?thesis by blast
qed

text \<open>
  The example run succeeds and builds the validation pipeline with these values.
\<close>

theorem validation_pipeline_fixed_witness:
  "snd (main (example_env []) (example_args None False False)) = Inr () \<and>
   (\<exists>p. NewMixedDataset (YInt 0) p ''valid''
          \<in> set (fst (main (example_env []) (example_args None False False)))) \<and>
   (\<exists>va. NewValidDataLoader va \<in> set (fst (main (example_env []) (example_args None False False))) \<and>
      vl_batch_size va = 1 \<and> vl_shuffle va = False)"
  using validation_pipeline_fixed [of "example_env []" "example_args None False False"]
    example_main_scratch [of "[]" False]
  by blast

section \<open>How training starts\<close>

lemma choose_pretrained:
  "pretrained_model_path a = Some p \<Longrightarrow>
   choose_ckpt_path env a config = ([LoadFromCheckpoint p, LoadPretrained], Inr None)"
  by (simp add: choose_ckpt_path_def bind_def emit_def ret_def)


lemma choose_resume:
  "pretrained_model_path a = None \<Longrightarrow> resume a \<Longrightarrow> ckpt_dir config = ([], Inr dir) \<Longrightarrow>
   choose_ckpt_path env a config =
     ([Rglob dir ''*.ckpt''],
      case sorted_reverse step_of (rglob env dir ''.ckpt'') of
        Inl e \<Rightarrow> Inl e
      | Inr l \<Rightarrow> Inr (case l of [] \<Rightarrow> None | x # _ \<Rightarrow> Some (str_path x)))"
  by (simp add: choose_ckpt_path_def bind_def emit_def ret_def lift_def split: sum.splits)

lemma main_started:
  assumes "prepare env a = (t0, Inr config)" "ckpt_dir config = ([], Inr dir)"
    "choose_ckpt_path env a config = (t7, Inr k)"
  shows "main env a =
     (t0 @ t7 @ Fit k # (if ft a then [SaveCheckpoint (str_path dir @ ''.ckpt'') True] else []),
      Inr ())"
  by (simp add: main_after_prepare [OF assms(1)] bind_ok [OF assms(3)] fit_and_save_eq [OF assms(2)])




lemma example_walk: "walk (example_env below) ''ckpt/m'' = below"
  by (simp add: example_env_def)


text \<open>
  Claim C8. When both a pretrained model path and \<open>--resume\<close> are given, the pretrained
  branch wins: no run scans the checkpoint directory, every call of \<open>fit\<close> has the checkpoint
  path \<open>None\<close>, and a run that gets as far as the trainer loads the pretrained model, fits
  without a checkpoint, and ends normally.
\<close>

theorem pretrained_takes_precedence:
  assumes "pretrained_model_path a = Some p" and "resume a"
  shows "(\<forall>d pat. Rglob d pat \<notin> set (fst (main env a))) \<and>
         (\<forall>k. Fit k \<in> set (fst (main env a)) \<longrightarrow> k = None) \<and>
         (\<forall>t0 config. prepare env a = (t0, Inr config) \<longrightarrow>
            (\<exists>dir. ckpt_dir config = ([], Inr dir) \<and>
               main env a =
                 (t0 @ [LoadFromCheckpoint p, LoadPretrained, Fit None] @
                    (if ft a then [SaveCheckpoint (str_path dir @ ''.ckpt'') True] else []),
                  Inr ())))"
proof -
  let ?P = "\<lambda>ev. (\<forall>d pat. ev \<noteq> Rglob d pat) \<and> (\<forall>k. ev = Fit k \<longrightarrow> k = None)"
  have "always ?P (main env a)"
  proof (rule always_main)
    show "always ?P (prepare env a)"
      by (rule always_weaken [OF prepare_part]) auto
    show "always ?P (choose_ckpt_path env a c)" for c
      by (simp add: choose_pretrained [OF assms(1)] always_def)
    show "always ?P (fit_and_save a c k)"
      if "snd (choose_ckpt_path env a c) = Inr k" for c k
    proof -
      from that have "k = None"
        by (simp add: choose_pretrained [OF assms(1)])
      then show ?thesis
        by (auto simp: fit_and_save_def intro!: always_steps ckpt_dir_part)
    qed
  qed
  then have "(\<forall>d pat. Rglob d pat \<notin> set (fst (main env a))) \<and>
             (\<forall>k. Fit k \<in> set (fst (main env a)) \<longrightarrow> k = None)"
    by (auto simp: always_def)
  moreover have "\<exists>dir. ckpt_dir config = ([], Inr dir) \<and>
      main env a =
        (t0 @ [LoadFromCheckpoint p, LoadPretrained, Fit None] @
           (if ft a then [SaveCheckpoint (str_path dir @ ''.ckpt'') True] else []), Inr ())"
    if pr: "prepare env a = (t0, Inr config)" for t0 config
  proof -
    from prepare_ckpt_dir [OF pr] obtain dir where dir: "ckpt_dir config = ([], Inr dir)" ..
    from main_started [OF pr dir choose_pretrained [OF assms(1)]] dir
    show ?thesis by auto
  qed
  ultimately show ?thesis by blast
qed

text \<open>
  The example run with both options and a checkpoint in the directory.
\<close>

theorem pretrained_takes_precedence_witness:
  "pretrained_model_path (example_args (Some ''pretrained.ckpt'') True False) = Some ''pretrained.ckpt'' \<and>
   resume (example_args (Some ''pretrained.ckpt'') True False) \<and>
   Rglob (truediv (Path ''ckpt'') ''m'') ''*.ckpt''
     \<notin> set (fst (main (example_env [[''step=500.ckpt'']])
                     (example_args (Some ''pretrained.ckpt'') True False))) \<and>
   main (example_env [[''step=500.ckpt'']]) (example_args (Some ''pretrained.ckpt'') True False) =
     (fst (prepare (example_env [[''step=500.ckpt'']])
             (example_args (Some ''pretrained.ckpt'') True False)) @
        [LoadFromCheckpoint ''pretrained.ckpt'', LoadPretrained, Fit None], Inr ())"
proof -
  have p: "pretrained_model_path (example_args (Some ''pretrained.ckpt'') True False)
             = Some ''pretrained.ckpt''"
    and r: "resume (example_args (Some ''pretrained.ckpt'') True False)"
    by (simp_all add: example_args_fields)
  from pretrained_takes_precedence [OF p r, of "example_env [[''step=500.ckpt'']]"]
    example_prepare_eq [of "[[''step=500.ckpt'']]" "Some ''pretrained.ckpt''" True False] p r
  show ?thesis
    by (auto simp: example_args_fields)
qed

section \<open>Resuming from the latest checkpoint\<close>

text \<open>
  Claim C5. With \<open>--resume\<close>, no pretrained model, and no entry below
  \<open>ckpt/<model_name>/\<close> whose name ends in \<open>.ckpt\<close>, the scan finds nothing, no
  \<open>IndexError\<close> is raised, and training starts with the checkpoint path \<open>None\<close>.
\<close>

theorem resume_without_checkpoints:
  assumes "prepare env a = (t0, Inr config)"
    and "pretrained_model_path a = None" and "resume a"
    and "ckpt_dir config = ([], Inr dir)"
    and "\<forall>rel\<in>set (walk env (str_path dir)). rel = [] \<or> \<not> endswith (last rel) ''.ckpt''"
  shows "rglob env dir ''.ckpt'' = [] \<and>
         main env a =
           (t0 @ [Rglob dir ''*.ckpt'', Fit None] @
              (if ft a then [SaveCheckpoint (str_path dir @ ''.ckpt'') True] else []), Inr ()) \<and>
         snd (main env a) \<noteq> Inl IndexError"
proof -
  have none: "rglob env dir ''.ckpt'' = []"
    using assms(5) by (auto simp: rglob_def filter_empty_conv)
  then have "choose_ckpt_path env a config = ([Rglob dir ''*.ckpt''], Inr None)"
    by (simp add: choose_resume [OF assms(2,3,4)] sorted_reverse_def)
  from main_started [OF assms(1,4) this] none show ?thesis by simp
qed

text \<open>
  The example run with a directory that holds other files only.
\<close>

theorem resume_without_checkpoints_witness:
  "rglob (example_env [[''notes.txt''], [''lightning_logs'', ''hparams.yaml'']])
      (truediv (Path ''ckpt'') ''m'') ''.ckpt'' = [] \<and>
   main (example_env [[''notes.txt''], [''lightning_logs'', ''hparams.yaml'']])
      (example_args None True False) =
     (fst (prepare (example_env [[''notes.txt''], [''lightning_logs'', ''hparams.yaml'']])
             (example_args None True False)) @
        [Rglob (truediv (Path ''ckpt'') ''m'') ''*.ckpt'', Fit None], Inr ())"
proof -
  have w: "\<forall>rel\<in>set (walk (example_env [[''notes.txt''], [''lightning_logs'', ''hparams.yaml'']])
                       (str_path (truediv (Path ''ckpt'') ''m''))).
             rel = [] \<or> \<not> endswith (last rel) ''.ckpt''"
    by (simp add: example_paths example_walk endswith_def)
  from resume_without_checkpoints [OF example_prepare_eq _ _ example_ckpt_dir w]
  show ?thesis
    by (simp add: example_args_fields)
qed






section \<open>Checkpointing and file locations\<close>











end
